theory Spec2Isabelle
  imports Complex_Main "HOL-Library.Char_ord" "HOL-Library.List_Lexorder" "HOL-Library.Word"
begin

section \<open>Python values and errors\<close>

text \<open>
  The lookalike script (task 2) and the clustering script (task 3) are Python over
  pandas, numpy and scikit-learn. Every exception the modelled code can raise is a value
  of \<open>py_error\<close>, carrying a message that tells the raising operation; a computation
  that may raise returns \<open>py_error + 'a\<close>.
  Floating-point cells are modelled as \<open>real\<close>: the lookalike code only compares
  scores and stores the constant \<open>-1\<close>, which floats do exactly (NaN apart); the
  sums and the scaling of floating-point columns are the exact real ones, without the
  rounding of float64. Integer cells are int64: 64-bit words, read as signed by \<open>sint\<close>,
  whose sums wrap around.
\<close>

datatype py_error = IndexError string | TypeError string | ValueError string

text \<open>Python's \<open>xs[k:]\<close> for a signed start \<open>k\<close>: a negative start counts from the end
  and is clipped at the front, a start past the end gives the empty list.\<close>

definition py_slice_from :: "int \<Rightarrow> 'a list \<Rightarrow> 'a list" where
  "py_slice_from k xs =
     (if k < 0 then drop (nat (max (int (length xs) + k) 0)) xs else drop (nat k) xs)"

text \<open>\<open>np.argsort(a)\<close>: the indices that sort \<open>a\<close> ascending. numpy does not fix
  the order of equal elements for its default sort kind; the model takes index order,
  which is what numpy's insertion sort of short arrays gives (\<open>sort_key\<close> is an
  insertion sort). Only the examples with tied scores depend on that choice.\<close>

definition argsort :: "real list \<Rightarrow> nat list" where
  "argsort a = sort_key (\<lambda>i. a ! i) [0..<length a]"


section \<open>Task 2: customer profiles (Aditya\_Bhutada\_Lookalike.py)\<close>

text \<open>Rows of the three input tables, with the columns the script reads.\<close>

record customer =
  c_CustomerID :: string
  c_Region :: string

record product =
  p_ProductID :: string
  p_Category :: string

record transaction =
  t_CustomerID :: string
  t_ProductID :: string
  t_Quantity :: "64 word"
  t_TotalValue :: real

text \<open>A row of \<open>merged_data\<close>: the transaction with the product's category, which is
  missing (NaN) when the left join finds no product.\<close>

record merged_row =
  m_CustomerID :: string
  m_Quantity :: "64 word"
  m_TotalValue :: real
  m_Category :: "string option"

text \<open>A row of \<open>customer_profiles\<close> after the merge with the customer table; the
  region is missing (NaN) when the left join finds no customer.\<close>

record profile =
  CustomerID :: string
  Quantity :: "64 word"
  TotalValue :: real
  Category :: string
  Region :: "string option"

definition merge_row :: "transaction \<Rightarrow> string option \<Rightarrow> merged_row" where
  "merge_row t c =
     \<lparr>m_CustomerID = t_CustomerID t, m_Quantity = t_Quantity t,
      m_TotalValue = t_TotalValue t, m_Category = c\<rparr>"

text \<open>\<open>transactions_df.merge(products_df, on='ProductID', how='left')\<close>: every
  transaction is kept, once per matching product, and once with a missing category when
  no product matches.\<close>

definition merged_data :: "transaction list \<Rightarrow> product list \<Rightarrow> merged_row list" where
  "merged_data transactions_df products_df =
     concat (map (\<lambda>t.
       case filter (\<lambda>p. p_ProductID p = t_ProductID t) products_df of
         [] \<Rightarrow> [merge_row t None]
       | ps \<Rightarrow> map (\<lambda>p. merge_row t (Some (p_Category p))) ps) transactions_df)"

text \<open>\<open>','.join(x)\<close> raises TypeError on an item that is not a string (a NaN).\<close>

fun str_join :: "string \<Rightarrow> string option list \<Rightarrow> py_error + string" where
  "str_join sep [] = Inr []"
| "str_join sep (None # xs) = Inl (TypeError ''expected str instance, float found'')"
| "str_join sep (Some s # xs) =
     (case str_join sep xs of
        Inl e \<Rightarrow> Inl e
      | Inr r \<Rightarrow> Inr (if xs = [] then s else s @ sep @ r))"

text \<open>The rows of one group, and the three aggregations of the \<open>agg\<close> dictionary.\<close>

definition group_rows :: "merged_row list \<Rightarrow> string \<Rightarrow> merged_row list" where
  "group_rows rows cid = filter (\<lambda>r. m_CustomerID r = cid) rows"

definition agg_Quantity :: "merged_row list \<Rightarrow> string \<Rightarrow> 64 word" where
  "agg_Quantity rows cid = sum_list (map m_Quantity (group_rows rows cid))"

definition agg_TotalValue :: "merged_row list \<Rightarrow> string \<Rightarrow> real" where
  "agg_TotalValue rows cid = sum_list (map m_TotalValue (group_rows rows cid))"

definition agg_Category :: "merged_row list \<Rightarrow> string \<Rightarrow> py_error + string" where
  "agg_Category rows cid = str_join '','' (map m_Category (group_rows rows cid))"

text \<open>\<open>groupby('CustomerID')\<close> has one group per distinct identifier, in ascending
  order of the identifier.\<close>

definition group_keys :: "merged_row list \<Rightarrow> string list" where
  "group_keys rows = sort (remdups (map m_CustomerID rows))"

text \<open>One aggregated row (before the merge with the customer table).\<close>

record agg_row =
  a_CustomerID :: string
  a_Quantity :: "64 word"
  a_TotalValue :: real
  a_Category :: string

definition agg_group :: "merged_row list \<Rightarrow> string \<Rightarrow> py_error + agg_row" where
  "agg_group rows cid =
     (case agg_Category rows cid of
        Inl e \<Rightarrow> Inl e
      | Inr c \<Rightarrow> Inr \<lparr>a_CustomerID = cid, a_Quantity = agg_Quantity rows cid,
                    a_TotalValue = agg_TotalValue rows cid, a_Category = c\<rparr>)"

text \<open>Running a list of computations, stopping at the first exception.\<close>

fun sequence :: "('e + 'a) list \<Rightarrow> 'e + 'a list" where
  "sequence [] = Inr []"
| "sequence (Inl e # xs) = Inl e"
| "sequence (Inr x # xs) = (case sequence xs of Inl e \<Rightarrow> Inl e | Inr ys \<Rightarrow> Inr (x # ys))"

definition groupby_agg :: "merged_row list \<Rightarrow> py_error + agg_row list" where
  "groupby_agg rows = sequence (map (agg_group rows) (group_keys rows))"

definition profile_row :: "agg_row \<Rightarrow> string option \<Rightarrow> profile" where
  "profile_row a r =
     \<lparr>CustomerID = a_CustomerID a, Quantity = a_Quantity a, TotalValue = a_TotalValue a,
      Category = a_Category a, Region = r\<rparr>"

text \<open>\<open>customer_profiles.merge(customers_df, on='CustomerID', how='left')\<close>.\<close>

definition merge_customers :: "agg_row list \<Rightarrow> customer list \<Rightarrow> profile list" where
  "merge_customers aggs customers_df =
     concat (map (\<lambda>a.
       case filter (\<lambda>c. c_CustomerID c = a_CustomerID a) customers_df of
         [] \<Rightarrow> [profile_row a None]
       | cs \<Rightarrow> map (\<lambda>c. profile_row a (Some (c_Region c))) cs) aggs)"

text \<open>Lines 17 to 31 of the script: join, aggregate, join.\<close>

definition customer_profiles ::
  "transaction list \<Rightarrow> product list \<Rightarrow> customer list \<Rightarrow> py_error + profile list" where
  "customer_profiles transactions_df products_df customers_df =
     (case groupby_agg (merged_data transactions_df products_df) of
        Inl e \<Rightarrow> Inl e
      | Inr aggs \<Rightarrow> Inr (merge_customers aggs customers_df))"


section \<open>Task 2: top-N lookalikes\<close>

text \<open>
  \<open>get_top_lookalikes\<close>. The row taken from the matrix is a numpy view, so the store
  into it at line 57 changes the caller's matrix: the model returns, beside the result
  or the exception of the call, the matrix as the call leaves it (an exception raised
  after line 57 leaves the store in place).
  \<^item> line 53: the first position whose identifier matches; \<open>[0]\<close> on the empty list raises;
  \<^item> line 54: row \<open>customer_index\<close> of the matrix (out of range raises);
  \<^item> line 57: the store of \<open>-1\<close> (out of range raises);
  \<^item> line 60: \<open>argsort\<close>, the slice \<open>[-top_n:]\<close>, reversed;
  \<^item> line 61: \<open>iloc\<close> on the positions (out of range raises);
  \<^item> lines 62 to 64: the scores at the positions, zipped with the identifiers.
\<close>

definition matching_indices :: "profile list \<Rightarrow> string \<Rightarrow> nat list" where
  "matching_indices profiles customer_id =
     filter (\<lambda>i. CustomerID (profiles ! i) = customer_id)
       [0..<length profiles]"

definition get_top_lookalikes ::
  "string \<Rightarrow> real list list \<Rightarrow> profile list \<Rightarrow> int
     \<Rightarrow> (py_error + (string \<times> real) list) \<times> real list list" where
  "get_top_lookalikes customer_id similarity_matrix profiles top_n =
     (case matching_indices profiles customer_id of
        [] \<Rightarrow> (Inl (IndexError ''list index out of range''), similarity_matrix)
      | customer_index # _ \<Rightarrow>
          if length similarity_matrix \<le> customer_index
          then (Inl (IndexError ''index is out of bounds for axis 0''), similarity_matrix)
          else if length (similarity_matrix ! customer_index) \<le> customer_index
          then (Inl (IndexError ''index is out of bounds for axis 0''), similarity_matrix)
          else
            let customer_similarities = (similarity_matrix ! customer_index)[customer_index := -1];
                similarity_matrix' = similarity_matrix[customer_index := customer_similarities];
                top_indices = rev (py_slice_from (- top_n) (argsort customer_similarities))
            in if list_ex (\<lambda>i. length profiles \<le> i) top_indices
               then (Inl (IndexError ''positional indexers are out-of-bounds''), similarity_matrix')
               else (Inr (zip (map (\<lambda>i. CustomerID (profiles ! i)) top_indices)
                              (map (\<lambda>i. customer_similarities ! i) top_indices)),
                     similarity_matrix'))"


text \<open>Lines 67 to 72. \<open>f'C{i:04d}'\<close> is the decimal numeral of \<open>i\<close>, padded with zeros
  on the left to four characters, after the letter C.\<close>

fun str_of_nat :: "nat \<Rightarrow> string" where
  "str_of_nat n =
     (if n < 10 then [char_of (48 + n)]
      else str_of_nat (n div 10) @ [char_of (48 + n mod 10)])"

definition format_04d :: "nat \<Rightarrow> string" where
  "format_04d i = replicate (4 - length (str_of_nat i)) (CHR ''0'') @ str_of_nat i"

definition first_20_ids :: "string list" where
  "first_20_ids = map (\<lambda>i. ''C'' @ format_04d i) [1..<21]"

definition top_20_customers :: "customer list \<Rightarrow> customer list" where
  "top_20_customers customers_df =
     filter (\<lambda>c. c_CustomerID c \<in> set first_20_ids) customers_df"

text \<open>The loop of lines 70 to 72, with the default \<open>top_n=3\<close>. The dictionary
  \<open>lookalikes\<close> and the similarity matrix are the loop's state; an exception of
  \<open>get_top_lookalikes\<close> is not caught and ends the loop.\<close>

definition default_top_n :: int where
  "default_top_n = 3"

fun lookalikes_loop ::
  "string list \<Rightarrow> real list list \<Rightarrow> profile list \<Rightarrow> (string \<rightharpoonup> (string \<times> real) list)
     \<Rightarrow> (py_error + (string \<rightharpoonup> (string \<times> real) list)) \<times> real list list" where
  "lookalikes_loop [] similarity_matrix profiles lookalikes = (Inr lookalikes, similarity_matrix)"
| "lookalikes_loop (customer_id # ids) similarity_matrix profiles lookalikes =
     (case get_top_lookalikes customer_id similarity_matrix profiles default_top_n of
        (Inl e, similarity_matrix') \<Rightarrow> (Inl e, similarity_matrix')
      | (Inr similar, similarity_matrix') \<Rightarrow>
          lookalikes_loop ids similarity_matrix' profiles (lookalikes(customer_id \<mapsto> similar)))"

definition lookalikes ::
  "customer list \<Rightarrow> real list list \<Rightarrow> profile list
     \<Rightarrow> (py_error + (string \<rightharpoonup> (string \<times> real) list)) \<times> real list list" where
  "lookalikes customers_df similarity_matrix profiles =
     lookalikes_loop (map c_CustomerID (top_20_customers customers_df))
       similarity_matrix profiles Map.empty"


section \<open>Task 2: feature encoding\<close>

text \<open>
  \<open>StandardScaler\<close>: each column minus its mean, divided by its population standard
  deviation. A column counts as constant, and is divided by 1 instead, when its variance
  is at most \<open>n * eps * var + (n * mean * eps)\<^sup>2\<close> for the \<open>n\<close> rows and the float64
  machine epsilon \<open>eps\<close>; a zero variance is the main case. Fitting on a table with no
  row raises ValueError.
\<close>

definition mean :: "real list \<Rightarrow> real" where
  "mean xs = sum_list xs / real (length xs)"

definition float_eps :: real where
  "float_eps = 1 / 2 ^ 52"

definition is_constant_feature :: "real \<Rightarrow> real \<Rightarrow> nat \<Rightarrow> bool" where
  "is_constant_feature var m n_samples =
     (var \<le> real n_samples * float_eps * var + (real n_samples * m * float_eps)\<^sup>2)"

definition scale_of :: "real list \<Rightarrow> real" where
  "scale_of xs =
     (let var = mean (map (\<lambda>x. (x - mean xs)\<^sup>2) xs)
      in if is_constant_feature var (mean xs) (length xs) then 1 else sqrt var)"

definition standardize :: "real list \<Rightarrow> real list" where
  "standardize xs = map (\<lambda>x. (x - mean xs) / scale_of xs) xs"

definition StandardScaler_fit_transform :: "(real \<times> real) list \<Rightarrow> py_error + real list list" where
  "StandardScaler_fit_transform rows =
     (if rows = [] then Inl (ValueError ''Found array with 0 sample(s)'')
      else Inr (map2 (\<lambda>a b. [a, b]) (standardize (map fst rows)) (standardize (map snd rows))))"

text \<open>
  \<open>OneHotEncoder(handle_unknown='ignore')\<close> on the columns Region and Category. The
  categories of a column are its distinct cells in ascending order, a missing cell last;
  a row gets, per column, the indicator vector of its own cell over that column's
  categories. The Category cell is the joined string built by \<open>agg_Category\<close>.
\<close>

definition Category_categories :: "profile list \<Rightarrow> string list" where
  "Category_categories profiles = sort (remdups (map Category profiles))"

definition Region_categories :: "profile list \<Rightarrow> string option list" where
  "Region_categories profiles =
     map Some (sort (remdups (concat (map (\<lambda>p. case Region p of None \<Rightarrow> [] | Some r \<Rightarrow> [r]) profiles))))
     @ (if None \<in> set (map Region profiles) then [None] else [])"

definition indicator :: "'a list \<Rightarrow> 'a \<Rightarrow> real list" where
  "indicator categories v = map (\<lambda>c. if c = v then 1 else 0) categories"

definition OneHotEncoder_fit_transform :: "profile list \<Rightarrow> py_error + real list list" where
  "OneHotEncoder_fit_transform profiles =
     (if profiles = [] then Inl (ValueError ''Found array with 0 sample(s)'')
      else Inr (map (\<lambda>p. indicator (Region_categories profiles) (Region p)
                         @ indicator (Category_categories profiles) (Category p)) profiles))"

text \<open>\<open>preprocessor.fit_transform\<close>: the two scaled numeric columns, then the indicator
  columns.\<close>

definition preprocessor_fit_transform :: "profile list \<Rightarrow> py_error + real list list" where
  "preprocessor_fit_transform profiles =
     (case StandardScaler_fit_transform
             (map (\<lambda>p. (real_of_int (sint (Quantity p)), TotalValue p)) profiles) of
        Inl e \<Rightarrow> Inl e
      | Inr num \<Rightarrow>
          (case OneHotEncoder_fit_transform profiles of
             Inl e \<Rightarrow> Inl e
           | Inr cat \<Rightarrow> Inr (map2 (@) num cat)))"


section \<open>Task 3: clustering (clustering\_script.py)\<close>

text \<open>Task 3 joins the transactions with the customer table (left join) and sums
  quantity and value per customer.\<close>

definition merged_data_t3 :: "transaction list \<Rightarrow> customer list \<Rightarrow> transaction list" where
  "merged_data_t3 transactions_df customers_df =
     concat (map (\<lambda>t.
       case filter (\<lambda>c. c_CustomerID c = t_CustomerID t) customers_df of
         [] \<Rightarrow> [t]
       | cs \<Rightarrow> map (\<lambda>c. t) cs) transactions_df)"

record profile_t3 =
  k_CustomerID :: string
  k_Quantity :: "64 word"
  k_TotalValue :: real

definition customer_profiles_t3 :: "transaction list \<Rightarrow> customer list \<Rightarrow> profile_t3 list" where
  "customer_profiles_t3 transactions_df customers_df =
     (let rows = merged_data_t3 transactions_df customers_df in
      map (\<lambda>cid.
        \<lparr>k_CustomerID = cid,
         k_Quantity = sum_list (map t_Quantity (filter (\<lambda>t. t_CustomerID t = cid) rows)),
         k_TotalValue = sum_list (map t_TotalValue (filter (\<lambda>t. t_CustomerID t = cid) rows))\<rparr>)
        (sort (remdups (map t_CustomerID rows))))"

definition scaled_data :: "profile_t3 list \<Rightarrow> py_error + real list list" where
  "scaled_data profiles =
     StandardScaler_fit_transform (map (\<lambda>p. (real_of_int (sint (k_Quantity p)), k_TotalValue p)) profiles)"

text \<open>
  \<open>KMeans(n_clusters=4, random_state=42)\<close>. The cluster count is the literal 4.
  \<open>fit_predict\<close> first compares the number of samples with the number of clusters and
  raises ValueError when there are fewer samples than clusters; only then the centroids
  are seeded and refined. The numerical part (seeding from the random state, Lloyd's
  iteration in floating point) is the parameter \<open>lloyd\<close>.
\<close>

definition n_clusters :: nat where
  "n_clusters = 4"

definition check_params_vs_input :: "nat \<Rightarrow> real list list \<Rightarrow> py_error + unit" where
  "check_params_vs_input k X =
     (if length X < k then Inl (ValueError ''n_samples should be >= n_clusters'') else Inr ())"

definition fit_predict ::
  "(nat \<Rightarrow> real list list \<Rightarrow> nat list) \<Rightarrow> nat \<Rightarrow> real list list \<Rightarrow> py_error + nat list" where
  "fit_predict lloyd k X =
     (case check_params_vs_input k X of
        Inl e \<Rightarrow> Inl e
      | Inr _ \<Rightarrow> Inr (lloyd k X))"

text \<open>\<open>davies_bouldin_score\<close> and \<open>silhouette_score\<close> raise ValueError unless the number
  of distinct labels is more than 1 and less than the number of samples.\<close>

definition check_number_of_labels :: "nat list \<Rightarrow> py_error + unit" where
  "check_number_of_labels labels =
     (if 1 < card (set labels) \<and> card (set labels) < length labels then Inr ()
      else Inl (ValueError ''Number of labels is invalid''))"

text \<open>
  The script from line 14 on: the files it has written when it stops, and the exception
  that stopped it, if any. Both files are written after the metrics are computed.
\<close>

definition clustering_script ::
  "(nat \<Rightarrow> real list list \<Rightarrow> nat list) \<Rightarrow> transaction list \<Rightarrow> customer list
     \<Rightarrow> string list \<times> py_error option" where
  "clustering_script lloyd transactions_df customers_df =
     (case scaled_data (customer_profiles_t3 transactions_df customers_df) of
        Inl e \<Rightarrow> ([], Some e)
      | Inr X \<Rightarrow>
          (case fit_predict lloyd n_clusters X of
             Inl e \<Rightarrow> ([], Some e)
           | Inr labels \<Rightarrow>
               (case check_number_of_labels labels of
                  Inl e \<Rightarrow> ([], Some e)
                | Inr _ \<Rightarrow>
                    ([''customer_clusters.png'', ''customer_segmentation_report.pdf''], None))))"

section \<open>Properties of the top-N extraction\<close>

subsection \<open>The paths through a call\<close>

lemma filter_upt_first:
  assumes "filter P [0..<n] = k # rest"
  shows "k < n \<and> P k \<and> (\<forall>i<k. \<not> P i)"
proof -
  from assms obtain us vs where split: "[0..<n] = us @ k # vs"
    and us: "\<forall>u\<in>set us. \<not> P u" and k: "P k"
    by (auto simp: filter_eq_Cons_iff)
  have len: "length us < n"
    using arg_cong[OF split, of length] by simp
  have "[0..<n] ! length us = k" unfolding split by simp
  then have kk: "length us = k" using len by simp
  have "\<not> P i" if "i < k" for i
  proof -
    have "[0..<n] ! i = us ! i" unfolding split using that kk by (simp add: nth_append)
    then have "us ! i = i" using that kk len by simp
    then have "i \<in> set us" using that kk by (metis nth_mem)
    then show ?thesis using us by blast
  qed
  then show ?thesis using k len kk by blast
qed

lemma matching_indices_first:
  assumes "matching_indices ps cid = k # rest"
  shows "k < length ps \<and> CustomerID (ps ! k) = cid \<and> (\<forall>i<k. CustomerID (ps ! i) \<noteq> cid)"
  using filter_upt_first[OF assms[unfolded matching_indices_def]] by simp

lemma matching_indices_absent:
  assumes "cid \<notin> set (map CustomerID ps)"
  shows "matching_indices ps cid = []"
  using assms unfolding matching_indices_def
  by (auto simp: filter_empty_conv)

lemma get_top_lookalikes_cases:
  assumes "get_top_lookalikes cid M ps n = (res, M')"
  shows "(matching_indices ps cid = [] \<and> res = Inl (IndexError ''list index out of range'') \<and> M' = M)
    \<or> (\<exists>k rest. matching_indices ps cid = k # rest \<and> (length M \<le> k \<or> length (M ! k) \<le> k)
          \<and> res = Inl (IndexError ''index is out of bounds for axis 0'') \<and> M' = M)
    \<or> (\<exists>k rest. matching_indices ps cid = k # rest \<and> k < length M \<and> k < length (M ! k)
          \<and> M' = M[k := (M ! k)[k := -1]]
          \<and> (res = Inl (IndexError ''positional indexers are out-of-bounds'')
              \<or> res = Inr (zip (map (\<lambda>i. CustomerID (ps ! i))
                                (rev (py_slice_from (- n) (argsort ((M ! k)[k := -1])))))
                              (map (\<lambda>i. (M ! k)[k := -1] ! i)
                                (rev (py_slice_from (- n) (argsort ((M ! k)[k := -1]))))))))"
  using assms unfolding get_top_lookalikes_def Let_def
  by (auto split: list.splits if_splits)

lemma get_top_lookalikes_Inr:
  assumes "get_top_lookalikes cid M ps n = (Inr pairs, M')"
  obtains k where
    "pairs = zip (map (\<lambda>i. CustomerID (ps ! i))
                   (rev (py_slice_from (- n) (argsort ((M ! k)[k := -1])))))
                 (map (\<lambda>i. (M ! k)[k := -1] ! i)
                   (rev (py_slice_from (- n) (argsort ((M ! k)[k := -1])))))"
  using get_top_lookalikes_cases[OF assms] by auto

lemma update_diag_frame:
  assumes "k < length M" "k < length (M ! k)"
  shows "map length (M[k := (M ! k)[k := v]]) = map length M"
    and "M[k := (M ! k)[k := v]] ! k ! k = v"
    and "M[k := (M ! k)[k := v]] ! i ! j \<noteq> M ! i ! j \<Longrightarrow> i = k \<and> j = k"
proof -
  show "map length (M[k := (M ! k)[k := v]]) = map length M"
    using assms by (simp add: map_update list_update_same_conv)
  show "M[k := (M ! k)[k := v]] ! k ! k = v" using assms by simp
  show "i = k \<and> j = k" if "M[k := (M ! k)[k := v]] ! i ! j \<noteq> M ! i ! j"
  proof (cases "i = k")
    case False
    with that show ?thesis by simp
  next
    case True
    have "j = k"
    proof (rule ccontr)
      assume "j \<noteq> k"
      then have "M[k := (M ! k)[k := v]] ! i ! j = M ! i ! j" using True assms by simp
      with that show False by simp
    qed
    with True show ?thesis by simp
  qed
qed

lemma py_slice_from_drop: "\<exists>j. py_slice_from k xs = drop j xs"
  unfolding py_slice_from_def by auto

lemma sorted_argsort_slice:
  "sorted (rev (map (\<lambda>i. a ! i) (rev (py_slice_from k (argsort a)))))"
proof -
  obtain j where j: "py_slice_from k (argsort a) = drop j (argsort a)"
    using py_slice_from_drop by blast
  have "sorted (map (\<lambda>i. a ! i) (argsort a))"
    unfolding argsort_def by (rule sorted_sort_key)
  then have "sorted (drop j (map (\<lambda>i. a ! i) (argsort a)))"
    by (rule sorted_wrt_drop)
  then show ?thesis
    by (simp add: j rev_map drop_map)
qed

lemma get_top_lookalikes_absent:
  assumes "cid \<notin> set (map CustomerID ps)"
  shows "get_top_lookalikes cid M ps n = (Inl (IndexError ''list index out of range''), M)"
  unfolding get_top_lookalikes_def using matching_indices_absent[OF assms] by simp

lemma lookalikes_loop_absent:
  assumes "cid \<in> set ids" "cid \<notin> set (map CustomerID ps)"
  shows "isl (fst (lookalikes_loop ids M ps acc))"
  using assms
proof (induction ids arbitrary: M acc)
  case Nil
  then show ?case by simp
next
  case (Cons a ids)
  show ?case
  proof (cases "a = cid")
    case True
    then show ?thesis using get_top_lookalikes_absent[OF Cons.prems(2)] by simp
  next
    case False
    with Cons.prems have "cid \<in> set ids" by simp
    then show ?thesis using Cons.IH Cons.prems(2)
      by (auto split: prod.splits sum.splits)
  qed
qed

subsection \<open>The rows of the profile table\<close>

lemma merged_data_ids: "set (map m_CustomerID (merged_data ts ps)) = set (map t_CustomerID ts)"
  unfolding merged_data_def
  by (induction ts) (auto simp: merge_row_def split: list.splits)

lemma sequence_Inr: "sequence xs = Inr ys \<Longrightarrow> xs = map Inr ys"
  by (induction xs arbitrary: ys rule: sequence.induct) (auto split: sum.splits)

lemma sequence_Inl: "sequence xs = Inl e \<Longrightarrow> Inl e \<in> set xs"
  by (induction xs rule: sequence.induct) (auto split: sum.splits)

lemma sequence_isl: "Inl e \<in> set xs \<Longrightarrow> isl (sequence xs)"
  by (induction xs rule: sequence.induct) (auto split: sum.splits)

lemma groupby_agg_ids:
  assumes "groupby_agg rows = Inr aggs"
  shows "map a_CustomerID aggs = group_keys rows"
proof -
  have eq: "map (agg_group rows) (group_keys rows) = map Inr aggs"
    using assms unfolding groupby_agg_def by (rule sequence_Inr)
  have "a_CustomerID a = cid" if "agg_group rows cid = Inr a" for cid a
    using that unfolding agg_group_def by (auto split: sum.splits)
  then have "list_all2 (\<lambda>cid a. a_CustomerID a = cid) (group_keys rows) aggs"
    using eq by (auto simp: list_all2_conv_all_nth map_equality_iff)
  then show ?thesis
    by (induction rule: list_all2_induct) auto
qed

lemma merge_customers_ids:
  "set (map CustomerID (merge_customers aggs cs)) = set (map a_CustomerID aggs)"
  unfolding merge_customers_def
  by (induction aggs) (auto simp: profile_row_def split: list.splits)

lemma customer_profiles_ids:
  assumes "customer_profiles ts prods custs = Inr profs"
  shows "set (map CustomerID profs) = set (map t_CustomerID ts)"
proof -
  from assms obtain aggs where aggs: "groupby_agg (merged_data ts prods) = Inr aggs"
    and profs: "profs = merge_customers aggs custs"
    unfolding customer_profiles_def by (auto split: sum.splits)
  have "set (map CustomerID profs) = set (group_keys (merged_data ts prods))"
    unfolding profs merge_customers_ids groupby_agg_ids[OF aggs] ..
  also have "\<dots> = set (map t_CustomerID ts)"
    unfolding group_keys_def by (simp only: set_sort set_remdups merged_data_ids)
  finally show ?thesis .
qed

lemma groupby_agg_member:
  assumes "groupby_agg rows = Inr aggs" "a \<in> set aggs"
  shows "agg_group rows (a_CustomerID a) = Inr a \<and> a_CustomerID a \<in> set (map m_CustomerID rows)"
proof -
  have eq: "map (agg_group rows) (group_keys rows) = map Inr aggs"
    using assms(1) unfolding groupby_agg_def by (rule sequence_Inr)
  from assms(2) obtain k where k: "k < length aggs" "aggs ! k = a"
    by (auto simp: in_set_conv_nth)
  have len: "length (group_keys rows) = length aggs"
    using arg_cong[OF eq, of length] by simp
  have "map (agg_group rows) (group_keys rows) ! k = map Inr aggs ! k" using eq by simp
  then have g: "agg_group rows (group_keys rows ! k) = Inr a" using k len by simp
  then have "a_CustomerID a = group_keys rows ! k"
    unfolding agg_group_def by (auto split: sum.splits)
  moreover have "group_keys rows ! k \<in> set (group_keys rows)" using k len by simp
  ultimately show ?thesis using g unfolding group_keys_def by simp
qed

lemma merge_customers_member:
  assumes "p \<in> set (merge_customers aggs cs)"
  shows "\<exists>a\<in>set aggs. CustomerID p = a_CustomerID a \<and> Category p = a_Category a"
proof -
  from assms obtain a where a: "a \<in> set aggs"
    and p: "p \<in> set (case filter (\<lambda>c. c_CustomerID c = a_CustomerID a) cs of
                       [] \<Rightarrow> [profile_row a None]
                     | cs \<Rightarrow> map (\<lambda>c. profile_row a (Some (c_Region c))) cs)"
    unfolding merge_customers_def by auto
  from p obtain r where "p = profile_row a r"
    by (cases "filter (\<lambda>c. c_CustomerID c = a_CustomerID a) cs") auto
  then have "CustomerID p = a_CustomerID a \<and> Category p = a_Category a"
    by (simp add: profile_row_def)
  with a show ?thesis by blast
qed

subsection \<open>The joined category string\<close>

lemma str_join_None:
  "None \<in> set xs \<Longrightarrow> str_join sep xs = Inl (TypeError ''expected str instance, float found'')"
  by (induction sep xs rule: str_join.induct) (auto split: sum.splits)

lemma str_join_Inl:
  "str_join sep xs = Inl e \<Longrightarrow> e = TypeError ''expected str instance, float found''"
  by (induction sep xs arbitrary: e rule: str_join.induct) (auto split: sum.splits)

lemma str_join_Inr:
  "str_join sep xs = Inr r \<Longrightarrow>
     \<exists>ss. xs = map Some ss \<and> r = (case ss of [] \<Rightarrow> [] | s # rest \<Rightarrow> s @ concat (map (\<lambda>u. sep @ u) rest))"
proof (induction sep xs arbitrary: r rule: str_join.induct)
  case (1 sep)
  then show ?case by simp
next
  case (2 sep xs)
  then show ?case by simp
next
  case (3 sep s xs)
  from "3.prems" obtain r' where r': "str_join sep xs = Inr r'"
    and r: "r = (if xs = [] then s else s @ sep @ r')"
    by (auto split: sum.splits)
  from "3.IH"[OF r'] obtain ss where ss: "xs = map Some ss"
    and r'': "r' = (case ss of [] \<Rightarrow> [] | s # rest \<Rightarrow> s @ concat (map (\<lambda>u. sep @ u) rest))"
    by blast
  have "Some s # xs = map Some (s # ss)" using ss by simp
  moreover have "r = s @ concat (map (\<lambda>u. sep @ u) ss)"
    using r r'' ss by (cases ss) auto
  ultimately show ?case by (metis list.simps(5))
qed

lemma agg_group_Inl:
  "agg_group rows cid = Inl e \<Longrightarrow> e = TypeError ''expected str instance, float found''"
  unfolding agg_group_def agg_Category_def
  by (auto split: sum.splits dest: str_join_Inl)

lemma group_categories:
  "map m_Category (group_rows (merged_data ts prods) cid) =
     concat (map (\<lambda>t. case filter (\<lambda>p. p_ProductID p = t_ProductID t) prods of
                        [] \<Rightarrow> [None]
                      | ps \<Rightarrow> map (\<lambda>p. Some (p_Category p)) ps)
                 (filter (\<lambda>t. t_CustomerID t = cid) ts))"
  unfolding merged_data_def group_rows_def
  by (induction ts) (auto simp: merge_row_def filter_map comp_def split: list.splits)

lemma matched_Some_categories:
  fixes t :: transaction
  assumes "(case filter (\<lambda>p. p_ProductID p = t_ProductID t) prods of
              [] \<Rightarrow> [None]
            | ps \<Rightarrow> map (\<lambda>p. Some (p_Category p)) ps) = map Some us"
  shows "us = map p_Category (filter (\<lambda>p. p_ProductID p = t_ProductID t) prods)"
proof (cases "filter (\<lambda>p. p_ProductID p = t_ProductID t) prods")
  case Nil
  with assms have "[None] = map Some us" by simp
  then show ?thesis by (cases us) auto
next
  case (Cons q qs)
  with assms have "map (\<lambda>p. Some (p_Category p)) (q # qs) = map Some us" by simp
  then have "map Some (map p_Category (q # qs)) = map Some us" by (simp add: comp_def)
  then have "map p_Category (q # qs) = us" by (simp only: inj_map_eq_map[OF inj_Some])
  then show ?thesis using Cons by simp
qed

lemma concat_Some_categories:
  assumes "concat (map (\<lambda>t. case filter (\<lambda>p. p_ProductID p = t_ProductID t) prods of
                        [] \<Rightarrow> [None]
                      | ps \<Rightarrow> map (\<lambda>p. Some (p_Category p)) ps) (L :: transaction list)) = map Some ss"
  shows "ss = concat (map (\<lambda>t. map p_Category (filter (\<lambda>p. p_ProductID p = t_ProductID t) prods)) L)"
  using assms
proof (induction L arbitrary: ss)
  case Nil
  then show ?case by simp
next
  case (Cons t L)
  define F where "F = (\<lambda>t::transaction. case filter (\<lambda>p. p_ProductID p = t_ProductID t) prods of
                        [] \<Rightarrow> [None]
                      | ps \<Rightarrow> map (\<lambda>p. Some (p_Category p)) ps)"
  have "F t @ concat (map F L) = map Some ss"
    using Cons.prems unfolding F_def by simp
  then obtain us vs where ss: "ss = us @ vs" and us: "F t = map Some us"
    and vs: "concat (map F L) = map Some vs"
    unfolding append_eq_map_conv by blast
  have "us = map p_Category (filter (\<lambda>p. p_ProductID p = t_ProductID t) prods)"
    using us unfolding F_def by (rule matched_Some_categories)
  moreover have "vs = concat (map (\<lambda>t. map p_Category (filter (\<lambda>p. p_ProductID p = t_ProductID t) prods)) L)"
    using vs unfolding F_def by (rule Cons.IH)
  ultimately show ?case using ss by simp
qed

lemma profile_category_joined:
  assumes "customer_profiles ts prods custs = Inr profs" and "p \<in> set profs"
  shows "\<exists>cats. cats = concat (map (\<lambda>t. map p_Category (filter (\<lambda>q. p_ProductID q = t_ProductID t) prods))
                          (filter (\<lambda>t. t_CustomerID t = CustomerID p) ts))
           \<and> cats \<noteq> [] \<and> Category p = hd cats @ concat (map (\<lambda>s. '','' @ s) (tl cats))"
proof -
  let ?rows = "merged_data ts prods"
  from assms(1) obtain aggs where aggs: "groupby_agg ?rows = Inr aggs"
    and profs: "profs = merge_customers aggs custs"
    unfolding customer_profiles_def by (auto split: sum.splits)
  from merge_customers_member[OF assms(2)[unfolded profs]] obtain a where
    a: "a \<in> set aggs" "CustomerID p = a_CustomerID a" "Category p = a_Category a" by blast
  from groupby_agg_member[OF aggs a(1)] have
    g: "agg_group ?rows (CustomerID p) = Inr a"
    and key: "CustomerID p \<in> set (map m_CustomerID ?rows)"
    using a(2) by simp_all
  from g have "str_join '','' (map m_Category (group_rows ?rows (CustomerID p))) = Inr (Category p)"
    unfolding agg_group_def agg_Category_def using a(3) by (auto split: sum.splits)
  from str_join_Inr[OF this] obtain ss where
    ss: "map m_Category (group_rows ?rows (CustomerID p)) = map Some ss"
    and cat: "Category p = (case ss of [] \<Rightarrow> [] | s # rest \<Rightarrow> s @ concat (map (\<lambda>u. '','' @ u) rest))"
    by blast
  have "group_rows ?rows (CustomerID p) \<noteq> []"
    using key unfolding group_rows_def by (auto simp: filter_empty_conv)
  then have ne: "ss \<noteq> []" using ss by auto
  have "ss = concat (map (\<lambda>t. map p_Category (filter (\<lambda>q. p_ProductID q = t_ProductID t) prods))
                          (filter (\<lambda>t. t_CustomerID t = CustomerID p) ts))"
    using ss unfolding group_categories by (rule concat_Some_categories)
  moreover have "Category p = hd ss @ concat (map (\<lambda>s. '','' @ s) (tl ss))"
    using cat ne by (cases ss) (simp_all del: append.simps)
  ultimately show ?thesis using ne by blast
qed

lemmas lookalike_eval =
  get_top_lookalikes_def matching_indices_def argsort_def py_slice_from_def upt_rec

lemmas profile_eval =
  customer_profiles_def groupby_agg_def merged_data_def group_keys_def
  agg_group_def agg_Category_def agg_Quantity_def agg_TotalValue_def group_rows_def
  merge_row_def merge_customers_def profile_row_def

subsection \<open>C1: order of the result\<close>

text \<open>
  C1, as the code has it: whenever \<open>get_top_lookalikes\<close> returns, the scores of the
  returned pairs are in descending order. The code has no tie-break on the identifier:
  the order among equal scores is the order \<open>argsort\<close> left them in, reversed.
\<close>

theorem get_top_lookalikes_descending:
  assumes "get_top_lookalikes cid M ps n = (Inr pairs, M')"
  shows "sorted_wrt (\<lambda>p q. snd q \<le> snd p) pairs"
proof -
  from assms obtain k where
    pairs: "pairs = zip (map (\<lambda>i. CustomerID (ps ! i))
                          (rev (py_slice_from (- n) (argsort ((M ! k)[k := -1])))))
                        (map (\<lambda>i. (M ! k)[k := -1] ! i)
                          (rev (py_slice_from (- n) (argsort ((M ! k)[k := -1])))))"
    by (rule get_top_lookalikes_Inr)
  have "map snd pairs =
        map (\<lambda>i. (M ! k)[k := -1] ! i) (rev (py_slice_from (- n) (argsort ((M ! k)[k := -1]))))"
    unfolding pairs by simp
  then have "sorted (rev (map snd pairs))"
    using sorted_argsort_slice[of "(M ! k)[k := -1]" "- n"] by simp
  then have "sorted_wrt (\<lambda>x y. y \<le> x) (map snd pairs)"
    by (simp add: sorted_wrt_rev)
  then show ?thesis by (simp add: sorted_wrt_map)
qed

theorem get_top_lookalikes_descending_witness:
  "get_top_lookalikes ''C0002''
     [[1, 1/4, 3/4], [1/4, 1, 1/2], [3/4, 1/2, 1]]
     [\<lparr>CustomerID = ''C0001'', Quantity = 10, TotalValue = 100, Category = ''Books'', Region = Some ''Asia''\<rparr>,
      \<lparr>CustomerID = ''C0002'', Quantity = 10, TotalValue = 100, Category = ''Books'', Region = Some ''Asia''\<rparr>,
      \<lparr>CustomerID = ''C0003'', Quantity = 1, TotalValue = 5, Category = ''Toys'', Region = Some ''Europe''\<rparr>]
     2
   = (Inr [(''C0003'', 1/2), (''C0001'', 1/4)], [[1, 1/4, 3/4], [1/4, - 1, 1/2], [3/4, 1/2, 1]])
   \<and> sorted_wrt (\<lambda>p q. snd q \<le> snd p) [(''C0003'', 1/2 :: real), (''C0001'', 1/4)]"
proof -
  have run: "get_top_lookalikes ''C0002''
     [[1, 1/4, 3/4], [1/4, 1, 1/2], [3/4, 1/2, 1]]
     [\<lparr>CustomerID = ''C0001'', Quantity = 10, TotalValue = 100, Category = ''Books'', Region = Some ''Asia''\<rparr>,
      \<lparr>CustomerID = ''C0002'', Quantity = 10, TotalValue = 100, Category = ''Books'', Region = Some ''Asia''\<rparr>,
      \<lparr>CustomerID = ''C0003'', Quantity = 1, TotalValue = 5, Category = ''Toys'', Region = Some ''Europe''\<rparr>]
     2
   = (Inr [(''C0003'', 1/2), (''C0001'', 1/4)], [[1, 1/4, 3/4], [1/4, - 1, 1/2], [3/4, 1/2, 1]])"
    by (simp add: lookalike_eval)
  from get_top_lookalikes_descending[OF run] run show ?thesis by (rule_tac conjI)
qed

text \<open>
  The tie-break of C1 fails: C0002 and C0003 have the same score for the query C0001,
  and the result lists C0003 first although \<open>''C0002'' < ''C0003''\<close>.
\<close>

theorem get_top_lookalikes_tie_counterexample:
  "get_top_lookalikes ''C0001''
     [[1, 1/2, 1/2], [1/2, 1, 0], [1/2, 0, 1]]
     [\<lparr>CustomerID = ''C0001'', Quantity = 1, TotalValue = 1, Category = ''Books'', Region = Some ''Asia''\<rparr>,
      \<lparr>CustomerID = ''C0002'', Quantity = 1, TotalValue = 1, Category = ''Books'', Region = Some ''Asia''\<rparr>,
      \<lparr>CustomerID = ''C0003'', Quantity = 1, TotalValue = 1, Category = ''Books'', Region = Some ''Asia''\<rparr>]
     2
   = (Inr [(''C0003'', 1/2), (''C0002'', 1/2)], [[- 1, 1/2, 1/2], [1/2, 1, 0], [1/2, 0, 1]])
   \<and> ''C0002'' < ''C0003''"
  by (simp add: lookalike_eval)

subsection \<open>C2 and C6: the query customer in its own result\<close>

text \<open>
  C2 at a failing input: two customers and the default \<open>top_n = 3\<close>. The store of \<open>-1\<close>
  only moves the query customer to the end of the ranking; the slice of the last three
  positions takes the whole row, so C0001 is returned among its own lookalikes.
\<close>

theorem get_top_lookalikes_returns_self:
  "get_top_lookalikes ''C0001''
     [[1, 1/2], [1/2, 1]]
     [\<lparr>CustomerID = ''C0001'', Quantity = 1, TotalValue = 1, Category = ''Books'', Region = Some ''Asia''\<rparr>,
      \<lparr>CustomerID = ''C0002'', Quantity = 2, TotalValue = 3, Category = ''Toys'', Region = Some ''Asia''\<rparr>]
     3
   = (Inr [(''C0002'', 1/2), (''C0001'', - 1)], [[- 1, 1/2], [1/2, 1]])"
  by (simp add: lookalike_eval)

text \<open>
  C6 at a failing input: three customers, so two others, fewer than \<open>top_n = 3\<close>. The
  call returns three pairs, the two other customers and the query customer itself.
\<close>

theorem get_top_lookalikes_returns_all_rows:
  "get_top_lookalikes ''C0002''
     [[1, 1/4, 3/4], [1/4, 1, 1/2], [3/4, 1/2, 1]]
     [\<lparr>CustomerID = ''C0001'', Quantity = 10, TotalValue = 100, Category = ''Books'', Region = Some ''Asia''\<rparr>,
      \<lparr>CustomerID = ''C0002'', Quantity = 10, TotalValue = 100, Category = ''Books'', Region = Some ''Asia''\<rparr>,
      \<lparr>CustomerID = ''C0003'', Quantity = 1, TotalValue = 5, Category = ''Toys'', Region = Some ''Europe''\<rparr>]
     3
   = (Inr [(''C0003'', 1/2), (''C0001'', 1/4), (''C0002'', - 1)],
      [[1, 1/4, 3/4], [1/4, - 1, 1/2], [3/4, 1/2, 1]])"
  by (simp add: lookalike_eval)

subsection \<open>C9: the similarity matrix after a call\<close>

text \<open>
  C9, as the code has it. Let \<open>M'\<close> be the similarity matrix as a call leaves it, whether
  the call returned or raised. Its shape is that of the matrix before, and an entry that
  differs is the diagonal entry of a row of the query customer and holds \<open>-1\<close>. A call
  that raised before line 57 (no matching row, or the position outside the matrix) left
  the matrix as it was. Every other call, so every call that returns and the one that
  raises at line 61, has overwritten in place with \<open>-1\<close> the diagonal entry of row \<open>k\<close>,
  the first row of the query customer, and nothing else: \<open>M'\<close> is the matrix before with
  that one entry replaced.
\<close>

theorem get_top_lookalikes_frame:
  assumes "get_top_lookalikes cid M ps n = (res, M')"
  shows "map length M' = map length M
    \<and> (\<forall>i j. M' ! i ! j \<noteq> M ! i ! j \<longrightarrow> i = j \<and> CustomerID (ps ! i) = cid \<and> M' ! i ! j = - 1)
    \<and> (res = Inl (IndexError ''list index out of range'')
         \<or> res = Inl (IndexError ''index is out of bounds for axis 0'') \<longrightarrow> M' = M)
    \<and> (\<not> isl res \<or> res = Inl (IndexError ''positional indexers are out-of-bounds'') \<longrightarrow>
         (\<exists>k. k < length ps \<and> CustomerID (ps ! k) = cid \<and> (\<forall>i<k. CustomerID (ps ! i) \<noteq> cid)
            \<and> k < length M \<and> k < length (M ! k)
            \<and> M' ! k ! k = - 1 \<and> M' = M[k := (M ! k)[k := - 1]]))"
proof -
  from get_top_lookalikes_cases[OF assms] consider
    (early) "M' = M" "isl res" "res \<noteq> Inl (IndexError ''positional indexers are out-of-bounds'')"
  | (stored) k rest where "matching_indices ps cid = k # rest" "k < length M" "k < length (M ! k)"
      "M' = M[k := (M ! k)[k := -1]]"
      "res \<noteq> Inl (IndexError ''list index out of range'')"
      "res \<noteq> Inl (IndexError ''index is out of bounds for axis 0'')"
    by auto
  then show ?thesis
  proof cases
    case early
    then show ?thesis by simp
  next
    case stored
    note first = matching_indices_first[OF stored(1)]
    note upd = update_diag_frame[OF stored(2,3), of "- 1"]
    have len: "map length M' = map length M" unfolding stored(4) by (rule upd(1))
    have diag: "M' ! k ! k = - 1" unfolding stored(4) by (rule upd(2))
    have frame: "i = j \<and> CustomerID (ps ! i) = cid \<and> M' ! i ! j = - 1"
      if "M' ! i ! j \<noteq> M ! i ! j" for i j
      using upd(3)[of i j] that first diag unfolding stored(4) by blast
    have "\<exists>k. k < length ps \<and> CustomerID (ps ! k) = cid \<and> (\<forall>i<k. CustomerID (ps ! i) \<noteq> cid)
            \<and> k < length M \<and> k < length (M ! k)
            \<and> M' ! k ! k = - 1 \<and> M' = M[k := (M ! k)[k := - 1]]"
      using first stored(2,3,4) diag by blast
    then show ?thesis using len frame stored(5,6) by blast
  qed
qed

theorem get_top_lookalikes_frame_witness:
  "get_top_lookalikes ''C0002''
     [[1, 1/2], [1/2, 1]]
     [\<lparr>CustomerID = ''C0001'', Quantity = 1, TotalValue = 1, Category = ''Books'', Region = Some ''Asia''\<rparr>,
      \<lparr>CustomerID = ''C0002'', Quantity = 2, TotalValue = 3, Category = ''Toys'', Region = Some ''Asia''\<rparr>]
     1
   = (Inr [(''C0001'', 1/2)], [[1, 1/2], [1/2, - 1]])
   \<and> (\<exists>k. k < length
         [\<lparr>CustomerID = ''C0001'', Quantity = 1, TotalValue = 1, Category = ''Books'', Region = Some ''Asia''\<rparr>,
      \<lparr>CustomerID = ''C0002'', Quantity = 2, TotalValue = 3, Category = ''Toys'', Region = Some ''Asia''\<rparr>]
       \<and> CustomerID ([\<lparr>CustomerID = ''C0001'', Quantity = 1, TotalValue = 1, Category = ''Books'', Region = Some ''Asia''\<rparr>,
      \<lparr>CustomerID = ''C0002'', Quantity = 2, TotalValue = 3, Category = ''Toys'', Region = Some ''Asia''\<rparr>] ! k) = ''C0002''
       \<and> (\<forall>i<k. CustomerID ([\<lparr>CustomerID = ''C0001'', Quantity = 1, TotalValue = 1, Category = ''Books'', Region = Some ''Asia''\<rparr>,
      \<lparr>CustomerID = ''C0002'', Quantity = 2, TotalValue = 3, Category = ''Toys'', Region = Some ''Asia''\<rparr>] ! i) \<noteq> ''C0002'')
       \<and> k < length [[1, 1/2], [1/2, 1 :: real]] \<and> k < length ([[1, 1/2], [1/2, 1 :: real]] ! k)
       \<and> [[1, 1/2], [1/2, - 1 :: real]] ! k ! k = - 1
       \<and> [[1, 1/2], [1/2, - 1 :: real]]
           = [[1, 1/2], [1/2, 1]][k := ([[1, 1/2], [1/2, 1]] ! k)[k := - 1]])"
proof -
  have run: "get_top_lookalikes ''C0002''
     [[1, 1/2], [1/2, 1]]
     [\<lparr>CustomerID = ''C0001'', Quantity = 1, TotalValue = 1, Category = ''Books'', Region = Some ''Asia''\<rparr>,
      \<lparr>CustomerID = ''C0002'', Quantity = 2, TotalValue = 3, Category = ''Toys'', Region = Some ''Asia''\<rparr>]
     1
   = (Inr [(''C0001'', 1/2)], [[1, 1/2], [1/2, - 1]])"
    by (simp add: lookalike_eval)
  have stored: "(\<exists>k. k < length
         [\<lparr>CustomerID = ''C0001'', Quantity = 1, TotalValue = 1, Category = ''Books'', Region = Some ''Asia''\<rparr>,
      \<lparr>CustomerID = ''C0002'', Quantity = 2, TotalValue = 3, Category = ''Toys'', Region = Some ''Asia''\<rparr>]
       \<and> CustomerID ([\<lparr>CustomerID = ''C0001'', Quantity = 1, TotalValue = 1, Category = ''Books'', Region = Some ''Asia''\<rparr>,
      \<lparr>CustomerID = ''C0002'', Quantity = 2, TotalValue = 3, Category = ''Toys'', Region = Some ''Asia''\<rparr>] ! k) = ''C0002''
       \<and> (\<forall>i<k. CustomerID ([\<lparr>CustomerID = ''C0001'', Quantity = 1, TotalValue = 1, Category = ''Books'', Region = Some ''Asia''\<rparr>,
      \<lparr>CustomerID = ''C0002'', Quantity = 2, TotalValue = 3, Category = ''Toys'', Region = Some ''Asia''\<rparr>] ! i) \<noteq> ''C0002'')
       \<and> k < length [[1, 1/2], [1/2, 1 :: real]] \<and> k < length ([[1, 1/2], [1/2, 1 :: real]] ! k)
       \<and> [[1, 1/2], [1/2, - 1 :: real]] ! k ! k = - 1
       \<and> [[1, 1/2], [1/2, - 1 :: real]]
           = [[1, 1/2], [1/2, 1]][k := ([[1, 1/2], [1/2, 1]] ! k)[k := - 1]])"
    using get_top_lookalikes_frame[OF run, THEN conjunct2, THEN conjunct2, THEN conjunct2]
    by (rule mp) simp
  from run stored show ?thesis by (rule conjI)
qed

text \<open>The matrix is changed in place: after the call for C0001 its diagonal entry is
  \<open>-1\<close>, no longer the self-similarity 1.\<close>

theorem get_top_lookalikes_mutates_counterexample:
  "get_top_lookalikes ''C0001''
     [[1, 1/2], [1/2, 1]]
     [\<lparr>CustomerID = ''C0001'', Quantity = 1, TotalValue = 1, Category = ''Books'', Region = Some ''Asia''\<rparr>,
      \<lparr>CustomerID = ''C0002'', Quantity = 2, TotalValue = 3, Category = ''Toys'', Region = Some ''Asia''\<rparr>]
     1
   = (Inr [(''C0002'', 1/2)], [[- 1, 1/2], [1/2, 1]])
   \<and> [[- 1, 1/2], [1/2, 1 :: real]] \<noteq> [[1, 1/2], [1/2, 1]]"
  by (simp add: lookalike_eval)

subsection \<open>C10: a query customer without transactions\<close>

text \<open>
  C10: a customer of the customer table who has no transaction has no row in the
  profiles, so \<open>get_top_lookalikes\<close> raises IndexError at the subscript \<open>[0]\<close> of the empty
  list of matching positions, whatever the matrix and \<open>top_n\<close>, and leaves the matrix as
  it was. The loop over the first twenty customers does not catch it: if that customer is
  one of them, the loop ends in an exception.
\<close>

theorem get_top_lookalikes_no_transactions:
  assumes "customer_profiles transactions_df products_df customers_df = Inr profs"
    and "c \<in> set customers_df"
    and "c_CustomerID c \<notin> set (map t_CustomerID transactions_df)"
  shows "get_top_lookalikes (c_CustomerID c) M profs n
           = (Inl (IndexError ''list index out of range''), M)
    \<and> (c_CustomerID c \<in> set first_20_ids \<longrightarrow> isl (fst (lookalikes customers_df M profs)))"
proof -
  have absent: "c_CustomerID c \<notin> set (map CustomerID profs)"
    using assms(3) customer_profiles_ids[OF assms(1)] by simp
  have "isl (fst (lookalikes customers_df M profs))" if "c_CustomerID c \<in> set first_20_ids"
  proof -
    have "c_CustomerID c \<in> set (map c_CustomerID (top_20_customers customers_df))"
      using that assms(2) unfolding top_20_customers_def by simp
    then show ?thesis
      unfolding lookalikes_def using absent by (rule lookalikes_loop_absent)
  qed
  then show ?thesis using get_top_lookalikes_absent[OF absent] by simp
qed

theorem get_top_lookalikes_no_transactions_witness:
  "get_top_lookalikes ''C0001'' [[1]]
     [\<lparr>CustomerID = ''C0002'', Quantity = 2, TotalValue = 10, Category = ''Books'', Region = Some ''Asia''\<rparr>] 3
   = (Inl (IndexError ''list index out of range''), [[1]])
   \<and> isl (fst (lookalikes
       [\<lparr>c_CustomerID = ''C0001'', c_Region = ''Asia''\<rparr>, \<lparr>c_CustomerID = ''C0002'', c_Region = ''Asia''\<rparr>]
       [[1]]
       [\<lparr>CustomerID = ''C0002'', Quantity = 2, TotalValue = 10, Category = ''Books'', Region = Some ''Asia''\<rparr>]))"
proof -
  have profs: "customer_profiles
      [\<lparr>t_CustomerID = ''C0002'', t_ProductID = ''P001'', t_Quantity = 2, t_TotalValue = 10\<rparr>]
      [\<lparr>p_ProductID = ''P001'', p_Category = ''Books''\<rparr>]
      [\<lparr>c_CustomerID = ''C0001'', c_Region = ''Asia''\<rparr>, \<lparr>c_CustomerID = ''C0002'', c_Region = ''Asia''\<rparr>]
    = Inr [\<lparr>CustomerID = ''C0002'', Quantity = 2, TotalValue = 10, Category = ''Books'', Region = Some ''Asia''\<rparr>]"
    by (simp add: profile_eval)
  have first: "''C0001'' \<in> set first_20_ids"
    by code_simp
  show ?thesis
    using get_top_lookalikes_no_transactions[OF profs,
        of "\<lparr>c_CustomerID = ''C0001'', c_Region = ''Asia''\<rparr>" "[[1]]" 3] first
    by simp
qed


section \<open>Properties of the profile aggregation\<close>

subsection \<open>C3: a transaction whose product is not in the product table\<close>

text \<open>
  C3 fails on the code. The left join keeps a transaction whose product identifier is
  not in the product table, as a row with a missing category; joining the categories of
  its customer's group then raises TypeError at line 25, which nothing catches. So
  whenever some transaction has such a product identifier, the run ends there, with no
  profile and no warning count, whatever the other transactions and the customer table
  are.
\<close>

theorem unmatched_transaction_aborts:
  assumes "t \<in> set transactions_df"
    and "t_ProductID t \<notin> set (map p_ProductID products_df)"
  shows "customer_profiles transactions_df products_df customers_df
           = Inl (TypeError ''expected str instance, float found'')"
proof -
  let ?rows = "merged_data transactions_df products_df"
  let ?cid = "t_CustomerID t"
  have nomatch: "filter (\<lambda>p. p_ProductID p = t_ProductID t) products_df = []"
    using assms(2) by (force simp: filter_empty_conv image_iff)
  have "t \<in> set (filter (\<lambda>u. t_CustomerID u = ?cid) transactions_df)"
    using assms(1) by simp
  then have "None \<in> set (map m_Category (group_rows ?rows ?cid))"
    unfolding group_categories using nomatch by (auto intro!: bexI[of _ t])
  then have "agg_Category ?rows ?cid = Inl (TypeError ''expected str instance, float found'')"
    unfolding agg_Category_def by (rule str_join_None)
  then have bad: "agg_group ?rows ?cid = Inl (TypeError ''expected str instance, float found'')"
    unfolding agg_group_def by simp
  have "?cid \<in> set (group_keys ?rows)"
    unfolding group_keys_def
    using merged_data_ids[of transactions_df products_df] assms(1) by auto
  then have "Inl (TypeError ''expected str instance, float found'')
               \<in> set (map (agg_group ?rows) (group_keys ?rows))"
    using bad by (metis image_eqI set_map)
  then have "isl (groupby_agg ?rows)"
    unfolding groupby_agg_def by (rule sequence_isl)
  then obtain e where e: "groupby_agg ?rows = Inl e" by (cases "groupby_agg ?rows") auto
  then have "Inl e \<in> set (map (agg_group ?rows) (group_keys ?rows))"
    unfolding groupby_agg_def by (rule sequence_Inl)
  then have "e = TypeError ''expected str instance, float found''"
    using agg_group_Inl by auto
  then show ?thesis unfolding customer_profiles_def using e by simp
qed

theorem unmatched_transaction_aborts_witness:
  "\<lparr>t_CustomerID = ''C0001'', t_ProductID = ''P999'', t_Quantity = 2, t_TotalValue = 7\<rparr>
     \<in> set [\<lparr>t_CustomerID = ''C0001'', t_ProductID = ''P001'', t_Quantity = 3, t_TotalValue = 30\<rparr>,
      \<lparr>t_CustomerID = ''C0001'', t_ProductID = ''P999'', t_Quantity = 2, t_TotalValue = 7\<rparr>]
   \<and> ''P999'' \<notin> set (map p_ProductID [\<lparr>p_ProductID = ''P001'', p_Category = ''Books''\<rparr>])
   \<and> customer_profiles
     [\<lparr>t_CustomerID = ''C0001'', t_ProductID = ''P001'', t_Quantity = 3, t_TotalValue = 30\<rparr>,
      \<lparr>t_CustomerID = ''C0001'', t_ProductID = ''P999'', t_Quantity = 2, t_TotalValue = 7\<rparr>]
     [\<lparr>p_ProductID = ''P001'', p_Category = ''Books''\<rparr>]
     [\<lparr>c_CustomerID = ''C0001'', c_Region = ''Asia''\<rparr>]
   = Inl (TypeError ''expected str instance, float found'')"
  using unmatched_transaction_aborts
    [of "\<lparr>t_CustomerID = ''C0001'', t_ProductID = ''P999'', t_Quantity = 2, t_TotalValue = 7\<rparr>"
        "[\<lparr>t_CustomerID = ''C0001'', t_ProductID = ''P001'', t_Quantity = 3, t_TotalValue = 30\<rparr>,
      \<lparr>t_CustomerID = ''C0001'', t_ProductID = ''P999'', t_Quantity = 2, t_TotalValue = 7\<rparr>]"
        "[\<lparr>p_ProductID = ''P001'', p_Category = ''Books''\<rparr>]"
        "[\<lparr>c_CustomerID = ''C0001'', c_Region = ''Asia''\<rparr>]"]
  by simp


section \<open>Properties of the categorical encoding\<close>

lemma Category_categories_distinct:
  "distinct (Category_categories ps) \<and> set (Category_categories ps) = Category ` set ps"
  unfolding Category_categories_def by simp

lemma Region_categories_distinct:
  "distinct (Region_categories ps) \<and> set (Region_categories ps) = Region ` set ps"
proof -
  let ?named = "concat (map (\<lambda>p. case Region p of None \<Rightarrow> [] | Some r \<Rightarrow> [r]) ps)"
  have named: "set ?named = {r. Some r \<in> Region ` set ps}"
    by (auto split: option.splits simp: image_iff)
  have d: "distinct (Region_categories ps)"
    unfolding Region_categories_def by (auto simp: distinct_map)
  have "set (Region_categories ps) = Some ` {r. Some r \<in> Region ` set ps}
          \<union> (if None \<in> Region ` set ps then {None} else {})"
    unfolding Region_categories_def using named by simp
  also have "\<dots> = Region ` set ps"
  proof (rule set_eqI)
    fix x show "x \<in> Some ` {r. Some r \<in> Region ` set ps}
          \<union> (if None \<in> Region ` set ps then {None} else {}) \<longleftrightarrow> x \<in> Region ` set ps"
      by (cases x) auto
  qed
  finally show ?thesis using d by simp
qed

lemma length_indicator: "length (indicator cats v) = length cats"
  unfolding indicator_def by simp

lemma indicator_nth:
  "j < length cats \<Longrightarrow> indicator cats v ! j = (if cats ! j = v then 1 else 0)"
  unfolding indicator_def by simp

lemma sum_list_indicator_absent:
  "v \<notin> set cats \<Longrightarrow> sum_list (indicator cats v) = 0"
  unfolding indicator_def by (induction cats) auto

lemma sum_list_indicator:
  "distinct cats \<Longrightarrow> v \<in> set cats \<Longrightarrow> sum_list (indicator cats v) = 1"
proof (induction cats)
  case Nil
  then show ?case by simp
next
  case (Cons c cats)
  show ?case
  proof (cases "c = v")
    case True
    with Cons.prems have "v \<notin> set cats" by simp
    from sum_list_indicator_absent[OF this] True show ?thesis
      by (simp add: indicator_def)
  next
    case False
    with Cons show ?thesis by (simp add: indicator_def)
  qed
qed

subsection \<open>C5: indicator dimensions\<close>

text \<open>
  C5, as the code has it, for the profiles the script builds from the tables and the
  matrix \<open>X\<close> the encoder makes of them.
  \<^item> The Category cell of customer \<open>i\<close> is one string: the categories of the products of
    that customer's transactions, in the order of the transaction table and with
    repetitions, joined by commas.
  \<^item> The encoder has exactly one indicator dimension per distinct cell of the Region column
    and one per distinct cell of the Category column, so per distinct joined string.
  \<^item> Row \<open>i\<close> of \<open>X\<close> is the Region dimensions followed by the Category dimensions, with
    1.0 in the dimension of the customer's own cell and 0.0 in every other dimension:
    exactly one 1.0 in each of the two blocks.
\<close>

theorem one_hot_per_distinct_cell:
  assumes "customer_profiles transactions_df products_df customers_df = Inr profs"
    and "OneHotEncoder_fit_transform profs = Inr X" and "i < length profs"
  shows "(\<exists>cats. cats = concat (map (\<lambda>t. map p_Category
                                   (filter (\<lambda>q. p_ProductID q = t_ProductID t) products_df))
                          (filter (\<lambda>t. t_CustomerID t = CustomerID (profs ! i)) transactions_df))
           \<and> cats \<noteq> []
           \<and> Category (profs ! i) = hd cats @ concat (map (\<lambda>s. '','' @ s) (tl cats)))
    \<and> distinct (Region_categories profs) \<and> set (Region_categories profs) = Region ` set profs
    \<and> distinct (Category_categories profs)
    \<and> set (Category_categories profs) = Category ` set profs
    \<and> length (X ! i) = length (Region_categories profs) + length (Category_categories profs)
    \<and> (\<forall>j<length (Region_categories profs).
          X ! i ! j = (if Region_categories profs ! j = Region (profs ! i) then 1 else 0))
    \<and> (\<forall>j<length (Category_categories profs).
          X ! i ! (length (Region_categories profs) + j)
            = (if Category_categories profs ! j = Category (profs ! i) then 1 else 0))
    \<and> sum_list (take (length (Region_categories profs)) (X ! i)) = 1
    \<and> sum_list (drop (length (Region_categories profs)) (X ! i)) = 1"
proof -
  let ?R = "Region_categories profs" and ?C = "Category_categories profs"
  let ?r = "indicator ?R (Region (profs ! i))" and ?c = "indicator ?C (Category (profs ! i))"
  have mem: "profs ! i \<in> set profs" using assms(3) by simp
  note joined = profile_category_joined[OF assms(1) mem]
  have row: "X ! i = ?r @ ?c"
    using assms(2,3) unfolding OneHotEncoder_fit_transform_def by (auto split: if_splits)
  have len: "length (X ! i) = length ?R + length ?C"
    unfolding row by (simp add: length_indicator)
  have reg: "X ! i ! j = (if ?R ! j = Region (profs ! i) then 1 else 0)" if "j < length ?R" for j
    unfolding row using that by (simp add: nth_append length_indicator indicator_nth)
  have cat: "X ! i ! (length ?R + j) = (if ?C ! j = Category (profs ! i) then 1 else 0)"
    if "j < length ?C" for j
    unfolding row using that by (simp add: nth_append length_indicator indicator_nth)
  have "sum_list ?r = 1"
    using Region_categories_distinct[of profs] mem by (intro sum_list_indicator) auto
  then have r1: "sum_list (take (length ?R) (X ! i)) = 1"
    unfolding row by (simp add: length_indicator)
  have "sum_list ?c = 1"
    using Category_categories_distinct[of profs] mem by (intro sum_list_indicator) auto
  then have c1: "sum_list (drop (length ?R) (X ! i)) = 1"
    unfolding row by (simp add: length_indicator)
  show ?thesis
    using joined Region_categories_distinct[of profs] Category_categories_distinct[of profs]
      len reg cat r1 c1
    by blast
qed

theorem one_hot_per_distinct_cell_witness:
  "customer_profiles
     [\<lparr>t_CustomerID = ''C0001'', t_ProductID = ''P001'', t_Quantity = 1, t_TotalValue = 10\<rparr>,
      \<lparr>t_CustomerID = ''C0002'', t_ProductID = ''P001'', t_Quantity = 1, t_TotalValue = 10\<rparr>,
      \<lparr>t_CustomerID = ''C0001'', t_ProductID = ''P002'', t_Quantity = 2, t_TotalValue = 20\<rparr>]
     [\<lparr>p_ProductID = ''P001'', p_Category = ''Books''\<rparr>, \<lparr>p_ProductID = ''P002'', p_Category = ''Toys''\<rparr>]
     [\<lparr>c_CustomerID = ''C0001'', c_Region = ''Asia''\<rparr>, \<lparr>c_CustomerID = ''C0002'', c_Region = ''Europe''\<rparr>]
   = Inr [\<lparr>CustomerID = ''C0001'', Quantity = 3, TotalValue = 30, Category = ''Books,Toys'', Region = Some ''Asia''\<rparr>,
      \<lparr>CustomerID = ''C0002'', Quantity = 1, TotalValue = 10, Category = ''Books'', Region = Some ''Europe''\<rparr>]
   \<and> OneHotEncoder_fit_transform
     [\<lparr>CustomerID = ''C0001'', Quantity = 3, TotalValue = 30, Category = ''Books,Toys'', Region = Some ''Asia''\<rparr>,
      \<lparr>CustomerID = ''C0002'', Quantity = 1, TotalValue = 10, Category = ''Books'', Region = Some ''Europe''\<rparr>]
   = Inr [[1, 0, 0, 1], [0, 1, 1, 0]]
   \<and> (0::nat) < length
     [\<lparr>CustomerID = ''C0001'', Quantity = 3, TotalValue = 30, Category = ''Books,Toys'', Region = Some ''Asia''\<rparr>,
      \<lparr>CustomerID = ''C0002'', Quantity = 1, TotalValue = 10, Category = ''Books'', Region = Some ''Europe''\<rparr>]
   \<and> ''Books,Toys'' = hd [''Books'', ''Toys''] @ concat (map (\<lambda>s. '','' @ s) (tl [''Books'', ''Toys'']))
   \<and> length ([[1, 0, 0, 1], [0, 1, 1, 0 :: real]] ! 0) = 2 + 2
   \<and> sum_list (take 2 ([[1, 0, 0, 1], [0, 1, 1, 0 :: real]] ! 0)) = 1
   \<and> sum_list (drop 2 ([[1, 0, 0, 1], [0, 1, 1, 0 :: real]] ! 0)) = 1"
proof -
  have profs: "customer_profiles
     [\<lparr>t_CustomerID = ''C0001'', t_ProductID = ''P001'', t_Quantity = 1, t_TotalValue = 10\<rparr>,
      \<lparr>t_CustomerID = ''C0002'', t_ProductID = ''P001'', t_Quantity = 1, t_TotalValue = 10\<rparr>,
      \<lparr>t_CustomerID = ''C0001'', t_ProductID = ''P002'', t_Quantity = 2, t_TotalValue = 20\<rparr>]
     [\<lparr>p_ProductID = ''P001'', p_Category = ''Books''\<rparr>, \<lparr>p_ProductID = ''P002'', p_Category = ''Toys''\<rparr>]
     [\<lparr>c_CustomerID = ''C0001'', c_Region = ''Asia''\<rparr>, \<lparr>c_CustomerID = ''C0002'', c_Region = ''Europe''\<rparr>]
   = Inr [\<lparr>CustomerID = ''C0001'', Quantity = 3, TotalValue = 30, Category = ''Books,Toys'', Region = Some ''Asia''\<rparr>,
      \<lparr>CustomerID = ''C0002'', Quantity = 1, TotalValue = 10, Category = ''Books'', Region = Some ''Europe''\<rparr>]"
    by (simp add: profile_eval)
  have enc: "OneHotEncoder_fit_transform
     [\<lparr>CustomerID = ''C0001'', Quantity = 3, TotalValue = 30, Category = ''Books,Toys'', Region = Some ''Asia''\<rparr>,
      \<lparr>CustomerID = ''C0002'', Quantity = 1, TotalValue = 10, Category = ''Books'', Region = Some ''Europe''\<rparr>]
   = Inr [[1, 0, 0, 1], [0, 1, 1, 0]]"
    by (simp add: OneHotEncoder_fit_transform_def Region_categories_def Category_categories_def
        indicator_def)
  from one_hot_per_distinct_cell[OF profs enc, of 0] profs enc show ?thesis
    by simp
qed

text \<open>
  C5 as stated fails: both customers bought only the category Books, C0001 twice. The
  vocabulary of categories has one value, yet the encoder has two Category dimensions,
  \<open>Books\<close> and \<open>Books,Books\<close>; repetitions are not collapsed, and C0001, whose profile
  contains Books, has 0.0 in the dimension \<open>Books\<close> (columns: Region Asia, Category
  Books, Category Books,Books).
\<close>

theorem one_hot_joined_string_counterexample:
  "customer_profiles
     [\<lparr>t_CustomerID = ''C0001'', t_ProductID = ''P001'', t_Quantity = 1, t_TotalValue = 10\<rparr>,
      \<lparr>t_CustomerID = ''C0001'', t_ProductID = ''P001'', t_Quantity = 1, t_TotalValue = 10\<rparr>,
      \<lparr>t_CustomerID = ''C0002'', t_ProductID = ''P001'', t_Quantity = 1, t_TotalValue = 10\<rparr>]
     [\<lparr>p_ProductID = ''P001'', p_Category = ''Books''\<rparr>]
     [\<lparr>c_CustomerID = ''C0001'', c_Region = ''Asia''\<rparr>, \<lparr>c_CustomerID = ''C0002'', c_Region = ''Asia''\<rparr>]
   = Inr [\<lparr>CustomerID = ''C0001'', Quantity = 2, TotalValue = 20, Category = ''Books,Books'', Region = Some ''Asia''\<rparr>,
          \<lparr>CustomerID = ''C0002'', Quantity = 1, TotalValue = 10, Category = ''Books'', Region = Some ''Asia''\<rparr>]
   \<and> Category_categories
         [\<lparr>CustomerID = ''C0001'', Quantity = 2, TotalValue = 20, Category = ''Books,Books'', Region = Some ''Asia''\<rparr>,
          \<lparr>CustomerID = ''C0002'', Quantity = 1, TotalValue = 10, Category = ''Books'', Region = Some ''Asia''\<rparr>]
       = [''Books'', ''Books,Books'']
   \<and> OneHotEncoder_fit_transform
         [\<lparr>CustomerID = ''C0001'', Quantity = 2, TotalValue = 20, Category = ''Books,Books'', Region = Some ''Asia''\<rparr>,
          \<lparr>CustomerID = ''C0002'', Quantity = 1, TotalValue = 10, Category = ''Books'', Region = Some ''Asia''\<rparr>]
       = Inr [[1, 0, 1], [1, 1, 0]]"
  by (simp add: profile_eval Category_categories_def Region_categories_def indicator_def
      OneHotEncoder_fit_transform_def)


section \<open>Properties of the clustering script\<close>

lemma merged_data_t3_ids:
  "set (map t_CustomerID (merged_data_t3 ts cs)) = set (map t_CustomerID ts)"
  unfolding merged_data_t3_def
  by (induction ts) (auto split: list.splits)

lemma length_customer_profiles_t3:
  "length (customer_profiles_t3 ts cs) = card (t_CustomerID ` set ts)"
proof -
  have "length (customer_profiles_t3 ts cs)
        = length (remdups (map t_CustomerID (merged_data_t3 ts cs)))"
    unfolding customer_profiles_t3_def Let_def by simp
  also have "\<dots> = card (set (map t_CustomerID (merged_data_t3 ts cs)))"
    by (rule length_remdups_card_conv)
  finally show ?thesis unfolding merged_data_t3_ids by simp
qed

lemma scaled_data_cases:
  "(ps = [] \<and> (\<exists>msg. scaled_data ps = Inl (ValueError msg)))
   \<or> (\<exists>X. scaled_data ps = Inr X \<and> length X = length ps)"
  unfolding scaled_data_def StandardScaler_fit_transform_def standardize_def
  by auto

subsection \<open>C4: the cluster count against the number of customers\<close>

text \<open>
  C4, as the code has it: the cluster count is the constant 4 and the script checks
  nothing itself. When fewer than 4 customers have transactions, the run ends in a
  ValueError (of the scaler on an empty table, else of the sample-count check of
  \<open>fit_predict\<close>) whatever the clustering algorithm is, so before any distance is
  computed, and no file has been written.
\<close>

theorem clustering_script_too_few_customers:
  assumes "card (t_CustomerID ` set transactions_df) < n_clusters"
  shows "fst (clustering_script lloyd transactions_df customers_df) = []
    \<and> (\<exists>msg. snd (clustering_script lloyd transactions_df customers_df) = Some (ValueError msg))"
proof -
  let ?ps = "customer_profiles_t3 transactions_df customers_df"
  have few: "length ?ps < n_clusters"
    using assms by (simp add: length_customer_profiles_t3)
  from scaled_data_cases[of ?ps] show ?thesis
  proof (elim disjE conjE exE)
    fix msg assume "scaled_data ?ps = Inl (ValueError msg)"
    then show ?thesis unfolding clustering_script_def by simp
  next
    fix X assume X: "scaled_data ?ps = Inr X" "length X = length ?ps"
    then have "fit_predict lloyd n_clusters X
                 = Inl (ValueError ''n_samples should be >= n_clusters'')"
      using few unfolding fit_predict_def check_params_vs_input_def by simp
    then show ?thesis unfolding clustering_script_def using X by simp
  qed
qed

theorem clustering_script_too_few_customers_witness:
  "card (t_CustomerID ` set
     [\<lparr>t_CustomerID = ''C0001'', t_ProductID = ''P001'', t_Quantity = 1, t_TotalValue = 1\<rparr>,
      \<lparr>t_CustomerID = ''C0002'', t_ProductID = ''P001'', t_Quantity = 3, t_TotalValue = 3\<rparr>]) < n_clusters
   \<and> (\<forall>lloyd. clustering_script lloyd
     [\<lparr>t_CustomerID = ''C0001'', t_ProductID = ''P001'', t_Quantity = 1, t_TotalValue = 1\<rparr>,
      \<lparr>t_CustomerID = ''C0002'', t_ProductID = ''P001'', t_Quantity = 3, t_TotalValue = 3\<rparr>]
     []
   = ([], Some (ValueError ''n_samples should be >= n_clusters'')))"
proof -
  have few: "card (t_CustomerID ` set
     [\<lparr>t_CustomerID = ''C0001'', t_ProductID = ''P001'', t_Quantity = 1, t_TotalValue = 1\<rparr>,
      \<lparr>t_CustomerID = ''C0002'', t_ProductID = ''P001'', t_Quantity = 3, t_TotalValue = 3\<rparr>]) < n_clusters"
    by (simp add: n_clusters_def card_insert_if)
  have run: "clustering_script lloyd
     [\<lparr>t_CustomerID = ''C0001'', t_ProductID = ''P001'', t_Quantity = 1, t_TotalValue = 1\<rparr>,
      \<lparr>t_CustomerID = ''C0002'', t_ProductID = ''P001'', t_Quantity = 3, t_TotalValue = 3\<rparr>]
     []
   = ([], Some (ValueError ''n_samples should be >= n_clusters''))" for lloyd
    using clustering_script_too_few_customers[OF few, of lloyd "[]"]
    by (simp add: clustering_script_def scaled_data_def customer_profiles_t3_def merged_data_t3_def
        StandardScaler_fit_transform_def standardize_def fit_predict_def check_params_vs_input_def
        n_clusters_def)
  from few run show ?thesis by simp
qed

text \<open>
  C4 as stated fails when the cluster count equals the number of customers: with four
  customers (so not \<open>K < 4\<close>) the table is scaled and the sample-count check of
  \<open>fit_predict\<close> passes, so clustering runs instead of failing first.
\<close>

theorem clustering_script_four_customers_counterexample:
  "scaled_data (customer_profiles_t3
     [\<lparr>t_CustomerID = ''C0001'', t_ProductID = ''P001'', t_Quantity = 1, t_TotalValue = 1\<rparr>,
      \<lparr>t_CustomerID = ''C0002'', t_ProductID = ''P001'', t_Quantity = 1, t_TotalValue = 1\<rparr>,
      \<lparr>t_CustomerID = ''C0003'', t_ProductID = ''P001'', t_Quantity = 3, t_TotalValue = 3\<rparr>,
      \<lparr>t_CustomerID = ''C0004'', t_ProductID = ''P001'', t_Quantity = 3, t_TotalValue = 3\<rparr>]
     [])
   = Inr [[- 1, - 1], [- 1, - 1], [1, 1], [1, 1]]
   \<and> check_params_vs_input n_clusters [[- 1, - 1], [- 1, - 1], [1, 1], [1, 1]] = Inr ()"
  by (simp add: scaled_data_def customer_profiles_t3_def merged_data_t3_def
      StandardScaler_fit_transform_def standardize_def mean_def scale_of_def
      is_constant_feature_def float_eps_def check_params_vs_input_def n_clusters_def)

end
